theory Spec2Isabelle
  imports Complex_Main "HOL-Library.Sublist" "HOL-Library.Word"
begin

section \<open>Python values\<close>

text \<open>
  Strings are lists of characters; a character stands for a code point below 256.
  The values \<^verbatim>\<open>json.loads\<close> produces are \<^verbatim>\<open>None\<close>, booleans, integers,
  floats (kept as their 64 bits), strings, lists and dictionaries (association lists in
  insertion order).
\<close>

datatype json =
    JNull
  | JBool bool
  | JInt int
  | JFloat "64 word"
  | JStr string
  | JList "json list"
  | JDict "(string \<times> json) list"

text \<open>The exceptions the modelled code can raise or meet; each carries its message.\<close>

datatype exn =
    ResourceExhausted string
  | RetryError exn
  | NameError string
  | AttributeError string
  | TypeError string
  | ValueError string
  | KeyError string
  | OtherException string

text \<open>Truth value testing, as \<^verbatim>\<open>if final_answer:\<close> and \<^verbatim>\<open>tool_name and ...\<close> use it.\<close>

fun truthy :: "json \<Rightarrow> bool" where
  "truthy JNull = False"
| "truthy (JBool b) = b"
| "truthy (JInt i) = (i \<noteq> 0)"
| "truthy (JFloat w) = (push_bit 1 w \<noteq> 0)"
| "truthy (JStr s) = (s \<noteq> [])"
| "truthy (JList xs) = (xs \<noteq> [])"
| "truthy (JDict kvs) = (kvs \<noteq> [])"

fun type_name :: "json \<Rightarrow> string" where
  "type_name JNull = ''NoneType''"
| "type_name (JBool b) = ''bool''"
| "type_name (JInt i) = ''int''"
| "type_name (JFloat w) = ''float''"
| "type_name (JStr s) = ''str''"
| "type_name (JList xs) = ''list''"
| "type_name (JDict kvs) = ''dict''"

text \<open>\<^verbatim>\<open>d.get(key, default)\<close> on a dictionary.\<close>

definition dict_get :: "(string \<times> json) list \<Rightarrow> string \<Rightarrow> json \<Rightarrow> json" where
  "dict_get kvs k dflt = (case map_of kvs k of None \<Rightarrow> dflt | Some v \<Rightarrow> v)"

section \<open>Text search\<close>

text \<open>
  \<open>find_sub pat s\<close> splits \<open>s\<close> at the first occurrence of \<open>pat\<close>: the text before it
  and the text after it.
\<close>

fun find_sub :: "string \<Rightarrow> string \<Rightarrow> (string \<times> string) option" where
  "find_sub pat [] = (if pat = [] then Some ([], []) else None)"
| "find_sub pat (c # cs) =
     (if prefix pat (c # cs) then Some ([], drop (length pat) (c # cs))
      else (case find_sub pat cs of
              None \<Rightarrow> None
            | Some (before, after) \<Rightarrow> Some (c # before, after)))"

text \<open>
  \<^verbatim>\<open>re.search(r'<tag>(.*?)</tag>', text, re.DOTALL)\<close>: the leftmost opening tag that
  has a closing tag after it, and the shortest text between them. When the first opening
  tag has no closing tag after it, no later one has, so the group, when there is a match,
  is the text between the first opening tag and the first closing tag after it.
\<close>

definition re_search_group :: "string \<Rightarrow> string \<Rightarrow> string \<Rightarrow> string option" where
  "re_search_group opening closing s =
     (case find_sub opening s of
        None \<Rightarrow> None
      | Some (before, rest) \<Rightarrow>
          (case find_sub closing rest of
             None \<Rightarrow> None
           | Some (inner, after) \<Rightarrow> Some inner))"

text \<open>\<^verbatim>\<open>str.isspace\<close> on one code point below 256, and \<^verbatim>\<open>str.strip()\<close>.\<close>

definition py_isspace :: "char \<Rightarrow> bool" where
  "py_isspace c =
     (let n = (of_char c :: nat)
      in (9 \<le> n \<and> n \<le> 13) \<or> (28 \<le> n \<and> n \<le> 32) \<or> n = 133 \<or> n = 160)"

definition strip :: "string \<Rightarrow> string" where
  "strip s = rev (dropWhile py_isspace (rev (dropWhile py_isspace s)))"

section \<open>The response parser\<close>

text \<open>
  \<^verbatim>\<open>json.loads\<close> is a parameter \<open>loads\<close>: \<open>Inr v\<close> is the decoded value,
  \<open>Inl msg\<close> is a \<^verbatim>\<open>json.JSONDecodeError\<close> with that message (the decoder's
  resource limits, such as the recursion depth, are left out).

  \<^verbatim>\<open>_parse_tool_code\<close> returns the pair \<^verbatim>\<open>(tool_name, parameters)\<close>, or
  \<^verbatim>\<open>(None, None)\<close>. A decoded value that is no dictionary has no \<^verbatim>\<open>get\<close>:
  the call raises AttributeError, which the function does not catch.
\<close>

type_synonym json_loads = "string \<Rightarrow> string + json"

definition parse_tool_code :: "json_loads \<Rightarrow> string \<Rightarrow> exn + (json \<times> json)" where
  "parse_tool_code loads s =
     (case re_search_group ''<tool_code>'' ''</tool_code>'' s of
        None \<Rightarrow> Inr (JNull, JNull)
      | Some g \<Rightarrow>
          (case loads (strip g) of
             Inl msg \<Rightarrow> Inr (JNull, JNull)
           | Inr (JDict kvs) \<Rightarrow>
               Inr (dict_get kvs ''tool_name'' JNull, dict_get kvs ''parameters'' (JDict []))
           | Inr tool_call \<Rightarrow>
               Inl (AttributeError
                      ([CHR 0x27] @ type_name tool_call @ [CHR 0x27]
                         @ '' object has no attribute '' @ [CHR 0x27] @ ''get'' @ [CHR 0x27]))))"

text \<open>\<^verbatim>\<open>_parse_final_answer\<close> returns the decoded value, or \<^verbatim>\<open>None\<close>.\<close>

definition parse_final_answer :: "json_loads \<Rightarrow> string \<Rightarrow> json" where
  "parse_final_answer loads s =
     (case re_search_group ''<final_answer>'' ''</final_answer>'' s of
        None \<Rightarrow> JNull
      | Some g \<Rightarrow>
          (case loads (strip g) of
             Inl msg \<Rightarrow> JNull
           | Inr final_answer \<Rightarrow> final_answer))"

section \<open>Branch names\<close>

text \<open>
  \<^verbatim>\<open>str.lower\<close> on one code point below 256, and the three assignments of
  \<^verbatim>\<open>run_devops_cycle\<close> (and of \<^verbatim>\<open>BuilderAgent.run\<close>) that compute the branch name:
  \<^verbatim>\<open>f"feature/{feature_id}-{title.replace(' ', '-').lower()}"\<close>, then
  \<^verbatim>\<open>re.sub(r'[^a-zA-Z0-9\-_]', '-', name)\<close>, then \<^verbatim>\<open>name[:100]\<close>.
\<close>

definition py_lower :: "char \<Rightarrow> char" where
  "py_lower c =
     (let n = (of_char c :: nat)
      in if (65 \<le> n \<and> n \<le> 90) \<or> (192 \<le> n \<and> n \<le> 222 \<and> n \<noteq> 215)
         then char_of (n + 32) else c)"

definition replace_space :: "string \<Rightarrow> string" where
  "replace_space s = map (\<lambda>c. if c = CHR '' '' then CHR ''-'' else c) s"

definition branch_char :: "char \<Rightarrow> bool" where
  "branch_char c =
     (let n = (of_char c :: nat)
      in (97 \<le> n \<and> n \<le> 122) \<or> (65 \<le> n \<and> n \<le> 90) \<or> (48 \<le> n \<and> n \<le> 57)
         \<or> c = CHR ''-'' \<or> c = CHR ''_'')"

definition re_sub_branch :: "string \<Rightarrow> string" where
  "re_sub_branch s = map (\<lambda>c. if branch_char c then c else CHR ''-'') s"

definition feature_branch_name :: "string \<Rightarrow> string \<Rightarrow> string" where
  "feature_branch_name feature_id title =
     (let name1 = ''feature/'' @ feature_id @ ''-'' @ map py_lower (replace_space title);
          name2 = re_sub_branch name1
      in take 100 name2)"

text \<open>
  The branch name as the specification words it, character by character: the prefix
  \<open>feature-\<close>, the feature id with every character outside letters, digits, \<open>-\<close> and
  \<open>_\<close> replaced by \<open>-\<close>, a \<open>-\<close>, and the title with every space replaced by \<open>-\<close>,
  every other character lower-cased and then replaced by \<open>-\<close> unless it is a letter, a
  digit, \<open>-\<close> or \<open>_\<close>; the whole cut to 100 characters.
\<close>

definition spec_id_char :: "char \<Rightarrow> char" where
  "spec_id_char c = (if branch_char c then c else CHR ''-'')"

definition spec_title_char :: "char \<Rightarrow> char" where
  "spec_title_char c =
     (if c = CHR '' '' then CHR ''-''
      else if branch_char (py_lower c) then py_lower c else CHR ''-'')"

definition branch_name_spec :: "string \<Rightarrow> string \<Rightarrow> string" where
  "branch_name_spec feature_id title =
     take 100 (''feature-'' @ map spec_id_char feature_id @ ''-'' @ map spec_title_char title)"

section \<open>The model, its tools and the retrying caller\<close>

text \<open>
  The external world (the model provider, the source-control host, the log store, the
  file system) is a state \<open>'w\<close> that every external call takes and returns.

  A model call \<^verbatim>\<open>self.llm.generate_content(prompt)\<close> either raises or returns a
  response; \<open>Text_response t\<close> is a response whose \<^verbatim>\<open>parts\<close> are non-empty and whose
  \<^verbatim>\<open>text\<close> is \<open>t\<close>, \<open>No_parts\<close> one whose \<^verbatim>\<open>parts\<close> are empty (its \<^verbatim>\<open>text\<close>
  accessor raises ValueError).

  A tool \<^verbatim>\<open>self.tools[name]["func"]\<close>, called as \<^verbatim>\<open>tool_func(**tool_params)\<close> inside
  \<^verbatim>\<open>try\<close>, gives \<open>Inr out\<close> with the text \<^verbatim>\<open>str(tool_output)\<close>, or \<open>Inl msg\<close> with
  the text \<^verbatim>\<open>str(e)\<close> of the exception the \<^verbatim>\<open>try\<close> block raised.
\<close>

datatype response = Text_response string | No_parts

type_synonym 'w model = "string \<Rightarrow> 'w \<Rightarrow> (exn + response) \<times> 'w"

type_synonym 'w tool = "json \<Rightarrow> 'w \<Rightarrow> (string + string) \<times> 'w"

record 'w agent =
  llm :: "'w model"
  tools :: "string \<Rightarrow> 'w tool option"

text \<open>One entry per round: the prompt submitted and what the model call gave.\<close>

type_synonym trace = "(string \<times> (exn + response)) list"

type_synonym 'w run_result = "(exn + json) \<times> 'w \<times> trace"

definition quoted :: "string \<Rightarrow> string" where
  "quoted s = [CHR 0x27] @ s @ [CHR 0x27]"

text \<open>
  Looking a global name up in a module: \<^verbatim>\<open>import google.generativeai as genai\<close> binds
  \<^verbatim>\<open>genai\<close> only, and \<^verbatim>\<open>from google.api_core import exceptions\<close> binds
  \<^verbatim>\<open>exceptions\<close> only. The lists are the names each module binds at its top level.
\<close>

definition resolve :: "string list \<Rightarrow> string \<Rightarrow> exn + unit" where
  "resolve module_globals name =
     (if name \<in> set module_globals then Inr ()
      else Inl (NameError (''name '' @ quoted name @ '' is not defined'')))"

definition builder_agent_globals :: "string list" where
  "builder_agent_globals =
     [''os'', ''json'', ''load_dotenv'', ''genai'', ''exceptions'', ''GithubAPI'',
      ''SeleniumTester'', ''MongoDBService'', ''re'', ''time'', ''retry'',
      ''wait_exponential'', ''stop_after_attempt'', ''retry_if_exception_type'',
      ''selenium_tester'', ''mongo_service'', ''BUILDER_PROMPT_TEMPLATE'', ''BuilderAgent'']"

definition product_manager_agent_globals :: "string list" where
  "product_manager_agent_globals =
     [''os'', ''json'', ''load_dotenv'', ''genai'', ''re'', ''time'', ''retry'',
      ''wait_exponential'', ''stop_after_attempt'', ''retry_if_exception_type'',
      ''exceptions'', ''PRODUCT_MANAGER_PROMPT_TEMPLATE'', ''ProductManagerAgent'']"

definition auto_documentation_agent_globals :: "string list" where
  "auto_documentation_agent_globals =
     [''os'', ''json'', ''load_dotenv'', ''genai'', ''GithubAPI'', ''MongoDBService'', ''re'',
      ''time'', ''retry'', ''wait_exponential'', ''stop_after_attempt'',
      ''retry_if_exception_type'', ''mongo_service'', ''AUTO_DOC_PROMPT_TEMPLATE'',
      ''AutoDocumentationAgent'']"

text \<open>
  The decorator
  \<^verbatim>\<open>@retry(wait=wait_exponential(multiplier=1, min=4, max=10), stop=stop_after_attempt(3),
  retry=retry_if_exception_type(exceptions.ResourceExhausted))\<close> of the tenacity library:
  an attempt that raises ResourceExhausted is repeated after a sleep unless the attempt
  number has reached 3, in which case RetryError (wrapping the last exception) is
  raised, since \<^verbatim>\<open>reraise\<close> is left at its default; any other exception leaves at
  once. The sleep after attempt \<open>k\<close> is \<^verbatim>\<open>max(max(0, min), min(multiplier * 2 ** (k - 1), max))\<close>
  (older releases of the library take the exponent \<open>k\<close>; with the floor 4 both give
  the same sleeps after the first and the second attempt). The result also reports the
  number of model invocations and the sleeps, which the source does not return.
\<close>

definition wait_exponential :: "nat \<Rightarrow> nat \<Rightarrow> nat \<Rightarrow> nat \<Rightarrow> nat" where
  "wait_exponential multiplier mn mx attempt_number =
     max (max 0 mn) (min (multiplier * 2 ^ (attempt_number - 1)) mx)"

definition stop_after_attempt :: "nat \<Rightarrow> nat \<Rightarrow> bool" where
  "stop_after_attempt max_attempt_number attempt_number =
     (max_attempt_number \<le> attempt_number)"

fun retry_if_resource_exhausted :: "exn \<Rightarrow> bool" where
  "retry_if_resource_exhausted (ResourceExhausted msg) = True"
| "retry_if_resource_exhausted e = False"

function retrying ::
  "'w model \<Rightarrow> string \<Rightarrow> nat \<Rightarrow> 'w \<Rightarrow> (exn + response) \<times> 'w \<times> nat \<times> nat list" where
  "retrying model prompt_text attempt_number w =
     (case model prompt_text w of
        (Inr response, w') \<Rightarrow> (Inr response, w', 1, [])
      | (Inl e, w') \<Rightarrow>
          (if retry_if_resource_exhausted e then
             (if stop_after_attempt 3 attempt_number then (Inl (RetryError e), w', 1, [])
              else (case retrying model prompt_text (attempt_number + 1) w' of
                      (r, w'', calls, sleeps) \<Rightarrow>
                        (r, w'', calls + 1, wait_exponential 1 4 10 attempt_number # sleeps)))
           else (Inl e, w', 1, [])))"
  by pat_completeness auto
termination
  by (relation "measure (\<lambda>(model, prompt_text, attempt_number, w). 3 - attempt_number)")
    (auto simp: stop_after_attempt_def)

declare retrying.simps [simp del]

definition generate_content_with_retry ::
  "'w model \<Rightarrow> string \<Rightarrow> 'w \<Rightarrow> (exn + response) \<times> 'w \<times> nat \<times> nat list" where
  "generate_content_with_retry model prompt_text w = retrying model prompt_text 1 w"

section \<open>One round after the final-answer test: the tool call\<close>

text \<open>
  \<^verbatim>\<open>tool_name and tool_name in self.tools\<close>: a falsy name stops the test; a list or a
  dictionary is unhashable, so the membership test raises TypeError; any other value
  that is no string is no key of the registry.
\<close>

fun registered_tool ::
  "(string \<Rightarrow> 'w tool option) \<Rightarrow> json \<Rightarrow> exn + (string \<times> 'w tool) option" where
  "registered_tool registry (JStr name) =
     (if name = [] then Inr None
      else (case registry name of None \<Rightarrow> Inr None | Some f \<Rightarrow> Inr (Some (name, f))))"
| "registered_tool registry (JList xs) =
     (if xs = [] then Inr None else Inl (TypeError (''unhashable type: '' @ quoted ''list'')))"
| "registered_tool registry (JDict kvs) =
     (if kvs = [] then Inr None else Inl (TypeError (''unhashable type: '' @ quoted ''dict'')))"
| "registered_tool registry v = Inr None"

text \<open>
  The second half of every loop body (in \<^verbatim>\<open>BuilderAgent.run\<close> from
  \<^verbatim>\<open>tool_name, tool_params = self._parse_tool_code(response_text)\<close> on): the prompt
  for the next round, or the exception that leaves the loop.
\<close>

definition tool_step ::
  "json_loads \<Rightarrow> (string \<Rightarrow> 'w tool option) \<Rightarrow> string \<Rightarrow> string \<Rightarrow> 'w \<Rightarrow> (exn + string) \<times> 'w"
  where
  "tool_step loads registry response_text current_prompt w =
     (case parse_tool_code loads response_text of
        Inl e \<Rightarrow> (Inl e, w)
      | Inr (tool_name, tool_params) \<Rightarrow>
          (case registered_tool registry tool_name of
             Inl e \<Rightarrow> (Inl e, w)
           | Inr None \<Rightarrow>
               (Inr (current_prompt @ ''\<newline>\<newline>LLM Thought/Response:\<newline>''
                       @ response_text @ ''\<newline>\<newline>''), w)
           | Inr (Some (name, tool_func)) \<Rightarrow>
               (case tool_func tool_params w of
                  (Inr tool_output, w') \<Rightarrow>
                    (Inr (current_prompt @ ''\<newline>\<newline>Tool Output for '' @ name
                            @ '':\<newline>'' @ tool_output @ ''\<newline>\<newline>''), w')
                | (Inl msg, w') \<Rightarrow>
                    (Inr (current_prompt @ ''\<newline>\<newline>Tool Error for '' @ name
                            @ '': '' @ msg @ ''\<newline>\<newline>''), w'))))"

section \<open>The loops of the reviewer, QA, impact-analyzer and merge-controller agents\<close>

text \<open>
  \<^verbatim>\<open>run_review\<close>, \<^verbatim>\<open>run_qa\<close>, \<^verbatim>\<open>run_analysis\<close> and
  \<^verbatim>\<open>run_merge_decision\<close> have the same loop, word for word but for the agent's name
  in the last message: the model is called directly, \<^verbatim>\<open>response.text\<close> is read
  directly, and the result after the last round carries \<^verbatim>\<open>raw_response\<close>. The
  argument \<open>current_prompt\<close> is the rendered prompt template; \<open>response_text\<close> is
  the variable of that name, unbound before the first round (so a loop of no rounds
  would raise; \<^verbatim>\<open>max_iterations\<close> is 10). The exception of the \<^verbatim>\<open>text\<close> accessor
  is the library's; its message is shortened here. The third component of the result
  lists the rounds; the source prints them and does not return them.
\<close>

definition max_iterations_failure :: "string \<Rightarrow> string \<Rightarrow> json" where
  "max_iterations_failure agent_name response_text =
     JDict [(''status'', JStr ''failure''),
            (''message'', JStr (agent_name
               @ '' reached max iterations without providing a final answer.'')),
            (''raw_response'', JStr response_text)]"

definition unbound_response_text :: exn where
  "unbound_response_text =
     NameError (''local variable '' @ quoted ''response_text''
                  @ '' referenced before assignment'')"

definition no_text_error :: exn where
  "no_text_error = ValueError ''response.text requires a valid Part''"

fun agent_loop ::
  "json_loads \<Rightarrow> 'w agent \<Rightarrow> string \<Rightarrow> nat \<Rightarrow> string \<Rightarrow> string option \<Rightarrow> 'w
     \<Rightarrow> 'w run_result" where
  "agent_loop loads self agent_name 0 current_prompt response_text w =
     (case response_text of
        None \<Rightarrow> (Inl unbound_response_text, w, [])
      | Some t \<Rightarrow> (Inr (max_iterations_failure agent_name t), w, []))"
| "agent_loop loads self agent_name (Suc n) current_prompt response_text w =
     (case llm self current_prompt w of
        (Inl e, w1) \<Rightarrow> (Inl e, w1, [(current_prompt, Inl e)])
      | (Inr No_parts, w1) \<Rightarrow> (Inl no_text_error, w1, [(current_prompt, Inr No_parts)])
      | (Inr (Text_response t), w1) \<Rightarrow>
          (let final_answer = parse_final_answer loads t in
           if truthy final_answer
           then (Inr final_answer, w1, [(current_prompt, Inr (Text_response t))])
           else (case tool_step loads (tools self) t current_prompt w1 of
                   (Inl e, w2) \<Rightarrow> (Inl e, w2, [(current_prompt, Inr (Text_response t))])
                 | (Inr next_prompt, w2) \<Rightarrow>
                     (case agent_loop loads self agent_name n next_prompt (Some t) w2 of
                        (r, w3, tr) \<Rightarrow>
                          (r, w3, (current_prompt, Inr (Text_response t)) # tr)))))"

definition max_iterations :: nat where
  "max_iterations = 10"

definition run_review :: "json_loads \<Rightarrow> 'w agent \<Rightarrow> string \<Rightarrow> 'w \<Rightarrow> 'w run_result" where
  "run_review loads self current_prompt w =
     agent_loop loads self ''Reviewer Agent'' max_iterations current_prompt None w"

definition run_qa :: "json_loads \<Rightarrow> 'w agent \<Rightarrow> string \<Rightarrow> 'w \<Rightarrow> 'w run_result" where
  "run_qa loads self current_prompt w =
     agent_loop loads self ''QA Agent'' max_iterations current_prompt None w"

definition run_analysis :: "json_loads \<Rightarrow> 'w agent \<Rightarrow> string \<Rightarrow> 'w \<Rightarrow> 'w run_result" where
  "run_analysis loads self current_prompt w =
     agent_loop loads self ''Impact Analyzer Agent'' max_iterations current_prompt None w"

definition run_merge_decision ::
  "json_loads \<Rightarrow> 'w agent \<Rightarrow> string \<Rightarrow> 'w \<Rightarrow> 'w run_result" where
  "run_merge_decision loads self current_prompt w =
     agent_loop loads self ''Confidence & Merge Controller Agent'' max_iterations
       current_prompt None w"

section \<open>The builder's loop\<close>

text \<open>
  \<^verbatim>\<open>response_text = ""\<close>, then \<^verbatim>\<open>if response.parts: response_text = response.text\<close>.
\<close>

definition text_or_empty :: "response \<Rightarrow> string" where
  "text_or_empty response = (case response of Text_response t \<Rightarrow> t | No_parts \<Rightarrow> [])"

text \<open>
  \<^verbatim>\<open>"pr_url" in final_answer_data\<close> and \<^verbatim>\<open>del final_answer_data["pr_url"]\<close> on a
  decoded value: a dictionary is asked for the key, a list for an equal element, a
  string for the substring; the other values are not iterable. Only a dictionary
  supports the deletion by a string key.
\<close>

fun py_contains :: "string \<Rightarrow> json \<Rightarrow> exn + bool" where
  "py_contains k (JDict kvs) = Inr (map_of kvs k \<noteq> None)"
| "py_contains k (JList xs) = Inr (JStr k \<in> set xs)"
| "py_contains k (JStr s) = Inr (find_sub k s \<noteq> None)"
| "py_contains k v =
     Inl (TypeError (''argument of type '' @ quoted (type_name v) @ '' is not iterable''))"

fun py_delitem :: "string \<Rightarrow> json \<Rightarrow> exn + json" where
  "py_delitem k (JDict kvs) =
     (if map_of kvs k = None then Inl (KeyError (quoted k))
      else Inr (JDict (filter (\<lambda>kv. fst kv \<noteq> k) kvs)))"
| "py_delitem k (JList xs) =
     Inl (TypeError ''list indices must be integers or slices, not str'')"
| "py_delitem k (JStr s) =
     Inl (TypeError (quoted ''str'' @ '' object doesn'' @ [CHR 0x27]
                       @ ''t support item deletion''))"
| "py_delitem k v =
     Inl (TypeError (quoted (type_name v) @ '' object does not support item deletion''))"

definition del_if_present :: "string \<Rightarrow> json \<Rightarrow> exn + json" where
  "del_if_present k v =
     (case py_contains k v of
        Inl e \<Rightarrow> Inl e
      | Inr present \<Rightarrow> (if present then py_delitem k v else Inr v))"

definition builder_failure :: "string \<Rightarrow> json" where
  "builder_failure message =
     JDict [(''status'', JStr ''failure''), (''message'', JStr message),
            (''local_changes_made'', JBool False)]"

text \<open>
  \<^verbatim>\<open>BuilderAgent.run\<close> from \<^verbatim>\<open>for i in range(max_iterations)\<close> on. \<open>exc_str\<close> is
  \<^verbatim>\<open>str(e)\<close> of an exception. The \<^verbatim>\<open>except exceptions.ResourceExhausted\<close> clause
  comes first, \<^verbatim>\<open>except Exception\<close> second. A response without parts gives the
  empty response text. The argument \<open>current_prompt\<close> is the rendered prompt template.
\<close>

fun builder_loop ::
  "json_loads \<Rightarrow> (exn \<Rightarrow> string) \<Rightarrow> 'w agent \<Rightarrow> nat \<Rightarrow> string \<Rightarrow> 'w \<Rightarrow> 'w run_result" where
  "builder_loop loads exc_str self 0 current_prompt w =
     (Inr (builder_failure
            ''Builder Agent reached max iterations without providing a final answer.''),
      w, [])"
| "builder_loop loads exc_str self (Suc n) current_prompt w =
     (case resolve builder_agent_globals ''exceptions'' of
        Inl e \<Rightarrow> (Inl e, w, [])
      | Inr u \<Rightarrow>
     (case generate_content_with_retry (llm self) current_prompt w of
        (Inl e, w1, calls, sleeps) \<Rightarrow>
          (if retry_if_resource_exhausted e
           then (Inr (builder_failure
                        (''Builder Agent failed due to Gemini API quota exhaustion: ''
                           @ exc_str e)),
                 w1, [(current_prompt, Inl e)])
           else (Inr (builder_failure
                        (''Builder Agent failed due to an unexpected error: '' @ exc_str e)),
                 w1, [(current_prompt, Inl e)]))
      | (Inr response, w1, calls, sleeps) \<Rightarrow>
          (let response_text = text_or_empty response;
               final_answer_data = parse_final_answer loads response_text
           in if truthy final_answer_data
              then (case del_if_present ''pr_url'' final_answer_data of
                      Inl e \<Rightarrow> (Inl e, w1, [(current_prompt, Inr response)])
                    | Inr d1 \<Rightarrow>
                        (case del_if_present ''pr_number'' d1 of
                           Inl e \<Rightarrow> (Inl e, w1, [(current_prompt, Inr response)])
                         | Inr d2 \<Rightarrow> (Inr d2, w1, [(current_prompt, Inr response)])))
              else (case tool_step loads (tools self) response_text current_prompt w1 of
                      (Inl e, w2) \<Rightarrow> (Inl e, w2, [(current_prompt, Inr response)])
                    | (Inr next_prompt, w2) \<Rightarrow>
                        (case builder_loop loads exc_str self n next_prompt w2 of
                           (r, w3, tr) \<Rightarrow> (r, w3, (current_prompt, Inr response) # tr))))))"

definition BuilderAgent_run ::
  "json_loads \<Rightarrow> (exn \<Rightarrow> string) \<Rightarrow> 'w agent \<Rightarrow> string \<Rightarrow> 'w \<Rightarrow> 'w run_result" where
  "BuilderAgent_run loads exc_str self current_prompt w =
     builder_loop loads exc_str self max_iterations current_prompt w"

section \<open>The product manager's loop\<close>

definition pm_failure :: "string \<Rightarrow> json" where
  "pm_failure message =
     JDict [(''status'', JStr ''failure''), (''message'', JStr message),
            (''raw_response'', JStr [])]"

text \<open>
  \<^verbatim>\<open>ProductManagerAgent.process_comment\<close> from \<^verbatim>\<open>for i in range(max_iterations)\<close>
  on, with \<^verbatim>\<open>max_iterations = 3\<close>. The decorator names
  \<^verbatim>\<open>exceptions.ResourceExhausted\<close>; the first \<^verbatim>\<open>except\<close> clause names
  \<^verbatim>\<open>google.api_core.exceptions.ResourceExhausted\<close>, an expression that is evaluated
  when an exception reaches the clause.
\<close>

fun process_comment_loop ::
  "json_loads \<Rightarrow> (exn \<Rightarrow> string) \<Rightarrow> 'w model \<Rightarrow> nat \<Rightarrow> string \<Rightarrow> 'w \<Rightarrow> 'w run_result" where
  "process_comment_loop loads exc_str model 0 prompt w =
     (Inr (JDict [(''status'', JStr ''failure''),
                  (''message'', JStr
                     ''Product Manager Agent failed to generate valid JSON after multiple attempts.'')]),
      w, [])"
| "process_comment_loop loads exc_str model (Suc n) prompt w =
     (case resolve product_manager_agent_globals ''exceptions'' of
        Inl e \<Rightarrow> (Inl e, w, [])
      | Inr u \<Rightarrow>
     (case generate_content_with_retry model prompt w of
        (Inl e, w1, calls, sleeps) \<Rightarrow>
          (case resolve product_manager_agent_globals ''google'' of
             Inl e' \<Rightarrow> (Inl e', w1, [(prompt, Inl e)])
           | Inr u' \<Rightarrow>
               (if retry_if_resource_exhausted e
                then (Inr (pm_failure
                        (''Product Manager Agent failed due to Gemini API quota exhaustion: ''
                           @ exc_str e)),
                      w1, [(prompt, Inl e)])
                else (Inr (pm_failure
                        (''Product Manager Agent failed due to an unexpected error: ''
                           @ exc_str e)),
                      w1, [(prompt, Inl e)])))
      | (Inr No_parts, w1, calls, sleeps) \<Rightarrow>
          (case process_comment_loop loads exc_str model n
                  (prompt @ ''\<newline>\<newline>Error: LLM did not return any text. Please provide a valid JSON output.'')
                  w1 of
             (r, w2, tr) \<Rightarrow> (r, w2, (prompt, Inr No_parts) # tr))
      | (Inr (Text_response response_text), w1, calls, sleeps) \<Rightarrow>
          (case re_search_group ''<json_output>'' ''</json_output>'' response_text of
             Some g \<Rightarrow>
               (let json_str = strip g in
                case loads json_str of
                  Inr structured_output \<Rightarrow>
                    (Inr (JDict [(''status'', JStr ''success''),
                                 (''output'', structured_output)]),
                     w1, [(prompt, Inr (Text_response response_text))])
                | Inl msg \<Rightarrow>
                    (case process_comment_loop loads exc_str model n
                            (prompt @ ''\<newline>\<newline>Error: Invalid JSON format. Please ensure the output is valid JSON. Error: ''
                               @ msg @ ''\<newline>Invalid JSON: '' @ json_str)
                            w1 of
                       (r, w2, tr) \<Rightarrow>
                         (r, w2, (prompt, Inr (Text_response response_text)) # tr)))
           | None \<Rightarrow>
               (case process_comment_loop loads exc_str model n
                       (prompt @ ''\<newline>\<newline>Error: JSON output not enclosed in <json_output> tags. Please use the specified format.'')
                       w1 of
                  (r, w2, tr) \<Rightarrow>
                    (r, w2, (prompt, Inr (Text_response response_text)) # tr)))))"

definition process_comment ::
  "json_loads \<Rightarrow> (exn \<Rightarrow> string) \<Rightarrow> 'w model \<Rightarrow> string \<Rightarrow> 'w \<Rightarrow> 'w run_result" where
  "process_comment loads exc_str model prompt w =
     process_comment_loop loads exc_str model 3 prompt w"

section \<open>The documentation agent's loop\<close>

text \<open>
  \<^verbatim>\<open>AutoDocumentationAgent.run_documentation\<close> from
  \<^verbatim>\<open>for i in range(max_iterations)\<close> on. Each round first defines the decorated
  function, which evaluates the decorator's argument
  \<^verbatim>\<open>retry_if_exception_type(google.api_core.exceptions.ResourceExhausted)\<close>.
\<close>

definition doc_failure :: "string \<Rightarrow> json" where
  "doc_failure message =
     JDict [(''status'', JStr ''failure''), (''message'', JStr message),
            (''raw_response'', JStr [])]"

fun documentation_loop ::
  "json_loads \<Rightarrow> (exn \<Rightarrow> string) \<Rightarrow> 'w agent \<Rightarrow> nat \<Rightarrow> string \<Rightarrow> string option \<Rightarrow> 'w
     \<Rightarrow> 'w run_result" where
  "documentation_loop loads exc_str self 0 current_prompt response_text w =
     (case response_text of
        None \<Rightarrow> (Inl unbound_response_text, w, [])
      | Some t \<Rightarrow> (Inr (max_iterations_failure ''Auto Documentation Agent'' t), w, []))"
| "documentation_loop loads exc_str self (Suc n) current_prompt response_text w =
     (case resolve auto_documentation_agent_globals ''google'' of
        Inl e \<Rightarrow> (Inl e, w, [])
      | Inr u \<Rightarrow>
     (case generate_content_with_retry (llm self) current_prompt w of
        (Inl e, w1, calls, sleeps) \<Rightarrow>
          (case resolve auto_documentation_agent_globals ''google'' of
             Inl e' \<Rightarrow> (Inl e', w1, [(current_prompt, Inl e)])
           | Inr u' \<Rightarrow>
               (if retry_if_resource_exhausted e
                then (Inr (doc_failure
                        (''Auto Documentation Agent failed due to Gemini API quota exhaustion: ''
                           @ exc_str e)),
                      w1, [(current_prompt, Inl e)])
                else (Inr (doc_failure
                        (''Auto Documentation Agent failed due to an unexpected error: ''
                           @ exc_str e)),
                      w1, [(current_prompt, Inl e)])))
      | (Inr response, w1, calls, sleeps) \<Rightarrow>
          (let t = text_or_empty response;
               final_answer = parse_final_answer loads t
           in if truthy final_answer
              then (Inr final_answer, w1, [(current_prompt, Inr response)])
              else (case tool_step loads (tools self) t current_prompt w1 of
                      (Inl e, w2) \<Rightarrow> (Inl e, w2, [(current_prompt, Inr response)])
                    | (Inr next_prompt, w2) \<Rightarrow>
                        (case documentation_loop loads exc_str self n next_prompt (Some t) w2 of
                           (r, w3, tr) \<Rightarrow> (r, w3, (current_prompt, Inr response) # tr))))))"

definition run_documentation ::
  "json_loads \<Rightarrow> (exn \<Rightarrow> string) \<Rightarrow> 'w agent \<Rightarrow> string \<Rightarrow> 'w \<Rightarrow> 'w run_result" where
  "run_documentation loads exc_str self current_prompt w =
     documentation_loop loads exc_str self max_iterations current_prompt None w"

section \<open>Pull requests\<close>

text \<open>
  The repository on the source-control host, as \<^verbatim>\<open>GithubAPI.create_pr\<close> sees it
  through the host's client: the owner's login, the branches, and the pull requests,
  newest first (the order \<^verbatim>\<open>get_pulls\<close> lists them in). \<^verbatim>\<open>create_pull\<close> opens a
  pull request with the next free number and the URL the host gives that number; its
  head label is \<^verbatim>\<open>owner:branch\<close>. The host's own refusals are not modelled.
\<close>

datatype pull_state = Open | Closed

record pull =
  pull_number :: nat
  html_url :: string
  pull_title :: string
  pull_body :: string
  pull_head :: string
  pull_base :: string
  pull_status :: pull_state

record repo =
  owner_login :: string
  branches :: "string list"
  pulls :: "pull list"
  next_number :: nat
  url_of_number :: "nat \<Rightarrow> string"

definition get_pulls :: "repo \<Rightarrow> pull_state \<Rightarrow> string \<Rightarrow> pull list" where
  "get_pulls r st head_label =
     filter (\<lambda>p. pull_status p = st \<and> pull_head p = head_label) (pulls r)"

definition create_pull :: "repo \<Rightarrow> string \<Rightarrow> string \<Rightarrow> string \<Rightarrow> string \<Rightarrow> pull \<times> repo" where
  "create_pull r title body head base =
     (let pr = \<lparr>pull_number = next_number r, html_url = url_of_number r (next_number r),
                 pull_title = title, pull_body = body,
                 pull_head = owner_login r @ '':'' @ head, pull_base = base,
                 pull_status = Open\<rparr>
      in (pr, r\<lparr>pulls := pr # pulls r, next_number := Suc (next_number r)\<rparr>))"

definition pr_dict :: "pull \<Rightarrow> json" where
  "pr_dict pr =
     JDict [(''pr_url'', JStr (html_url pr)), (''pr_number'', JInt (int (pull_number pr)))]"

definition create_pr ::
  "repo \<Rightarrow> string \<Rightarrow> string \<Rightarrow> string \<Rightarrow> string \<Rightarrow> (exn + json) \<times> repo" where
  "create_pr r title body head base =
     (let existing_prs = get_pulls r Open (owner_login r @ '':'' @ head)
      in if length existing_prs > 0 then (Inr (pr_dict (existing_prs ! 0)), r)
         else if \<not> list_ex (\<lambda>b. b = head) (branches r)
         then (Inl (ValueError (''Branch '' @ head @ '' not found in repo.'')), r)
         else (case create_pull r title body head base of
                 (pr, r') \<Rightarrow> (Inr (pr_dict pr), r')))"

section \<open>The confidence formula of the merge controller's prompt\<close>

text \<open>
  The formula stands in \<^verbatim>\<open>MERGE_CONTROLLER_PROMPT_TEMPLATE\<close> only, as an instruction
  to the model:
  \<^verbatim>\<open>confidence = (tests_pass * 0.4) + (review_score * 0.3) + (qa_pass * 0.2) - ((risk_score / 10) * 0.3)\<close>
  and \<^verbatim>\<open>If confidence > 0.85, then merge the PR automatically\<close>.
\<close>

definition confidence :: "real \<Rightarrow> real \<Rightarrow> real \<Rightarrow> real \<Rightarrow> real" where
  "confidence tests_pass review_score qa_pass risk_score =
     (tests_pass * 0.4) + (review_score * 0.3) + (qa_pass * 0.2) - ((risk_score / 10) * 0.3)"

definition formula_merges :: "real \<Rightarrow> real \<Rightarrow> real \<Rightarrow> real \<Rightarrow> bool" where
  "formula_merges tests_pass review_score qa_pass risk_score =
     (confidence tests_pass review_score qa_pass risk_score > 0.85)"

section \<open>Predicates of the statements\<close>


fun chain_from :: "string \<Rightarrow> string list \<Rightarrow> bool" where
  "chain_from p [] = True"
| "chain_from p (x # xs) = (prefix p x \<and> chain_from x xs)"

section \<open>Sample collaborators\<close>

text \<open>
  Concrete collaborators for the instances evaluated below. The sample world counts the
  model calls and logs the tool calls. \<open>scripted_model\<close> answers its \<open>k\<close>-th call with
  the \<open>k\<close>-th entry of a script (and with a response without parts after the script's
  end); \<open>raising_model\<close> raises the same exception at every call. \<open>loads_sample\<close>
  agrees with \<^verbatim>\<open>json.loads\<close> on the JSON texts it lists; every other text the
  instances below pass to it is no JSON text.
\<close>

record world =
  model_calls :: nat
  tool_calls :: "(string \<times> json) list"

definition world0 :: world where
  "world0 = \<lparr>model_calls = 0, tool_calls = []\<rparr>"

definition scripted_model :: "(exn + response) list \<Rightarrow> world model" where
  "scripted_model script prompt_text w =
     ((if model_calls w < length script then script ! model_calls w else Inr No_parts),
      w\<lparr>model_calls := Suc (model_calls w)\<rparr>)"

definition raising_model :: "exn \<Rightarrow> 'w model" where
  "raising_model e prompt_text w = (Inl e, w)"

definition logging_tool :: "string \<Rightarrow> string \<Rightarrow> world tool" where
  "logging_tool name out params w = (Inr out, w\<lparr>tool_calls := tool_calls w @ [(name, params)]\<rparr>)"

definition failing_tool :: "string \<Rightarrow> string \<Rightarrow> world tool" where
  "failing_tool name msg params w =
     (Inl msg, w\<lparr>tool_calls := tool_calls w @ [(name, params)]\<rparr>)"

definition sample_tools :: "string \<Rightarrow> world tool option" where
  "sample_tools =
     [''MongoDB_InsertLog'' \<mapsto>
        logging_tool ''MongoDB_InsertLog'' ''Log inserted into merge_cycles'']"

definition sample_agent :: "(exn + response) list \<Rightarrow> world agent" where
  "sample_agent script = \<lparr>llm = scripted_model script, tools = sample_tools\<rparr>"

definition sample_builder :: "(exn + response) list \<Rightarrow> world agent" where
  "sample_builder script =
     \<lparr>llm = scripted_model script,
      tools = sample_tools(''Selenium_RunTests'' \<mapsto>
                failing_tool ''Selenium_RunTests'' ''pytest not found'')\<rparr>"

definition loads_sample :: json_loads where
  "loads_sample s =
     (if s = ''{}'' then Inr (JDict [])
      else if s = ''[1]'' then Inr (JList [JInt 1])
      else if s = ''{\"merge_decision\": \"merged\"}''
      then Inr (JDict [(''merge_decision'', JStr ''merged'')])
      else if s = ''{\"merge_decision\": \"rejected\"}''
      then Inr (JDict [(''merge_decision'', JStr ''rejected'')])
      else if s = ''{\"tool_name\": \"MongoDB_InsertLog\", \"parameters\": {\"collection_name\": \"merge_cycles\", \"log_entry\": {}}}''
      then Inr (JDict [(''tool_name'', JStr ''MongoDB_InsertLog''),
                       (''parameters'',
                        JDict [(''collection_name'', JStr ''merge_cycles''),
                               (''log_entry'', JDict [])])])
      else if s = ''{\"tool_name\": \"Selenium_RunTests\", \"parameters\": {}}''
      then Inr (JDict [(''tool_name'', JStr ''Selenium_RunTests''),
                       (''parameters'', JDict [])])
      else if s = ''{\"status\": \"success\", \"pr_url\": \"u\", \"pr_number\": 7, \"local_changes_made\": true}''
      then Inr (JDict [(''status'', JStr ''success''), (''pr_url'', JStr ''u''),
                       (''pr_number'', JInt 7), (''local_changes_made'', JBool True)])
      else Inl ''Expecting value: line 1 column 1 (char 0)'')"

fun exc_str_sample :: "exn \<Rightarrow> string" where
  "exc_str_sample (ResourceExhausted msg) = msg"
| "exc_str_sample (RetryError e) = ''RetryError''"
| "exc_str_sample (NameError msg) = msg"
| "exc_str_sample (AttributeError msg) = msg"
| "exc_str_sample (TypeError msg) = msg"
| "exc_str_sample (ValueError msg) = msg"
| "exc_str_sample (KeyError msg) = msg"
| "exc_str_sample (OtherException msg) = msg"

definition sample_repo :: repo where
  "sample_repo =
     \<lparr>owner_login = ''Merothiya'', branches = [''main'', ''feature-F1-x''], pulls = [],
      next_number = 7, url_of_number = (\<lambda>n. ''https://github.com/pull'')\<rparr>"


text \<open>
  Sample texts: an excerpt of a rendered merge-controller prompt, and model responses.
\<close>

definition sample_merge_prompt :: string where
  "sample_merge_prompt =
     ''- Test Results (from Builder A1): {\"success\": false}\<newline>- Risk Score (from Impact Analyzer A6): 0''"

definition answer_merged :: string where
  "answer_merged = ''<final_answer>{\"merge_decision\": \"merged\"}</final_answer>''"

definition answer_rejected :: string where
  "answer_rejected = ''<final_answer>{\"merge_decision\": \"rejected\"}</final_answer>''"

definition answer_empty_and_tool :: string where
  "answer_empty_and_tool =
     ''<final_answer>{}</final_answer><tool_code>{\"tool_name\": \"MongoDB_InsertLog\", \"parameters\": {\"collection_name\": \"merge_cycles\", \"log_entry\": {}}}</tool_code>''"

definition answer_merged_and_tool :: string where
  "answer_merged_and_tool =
     ''<final_answer>{\"merge_decision\": \"merged\"}</final_answer><tool_code>{\"tool_name\": \"MongoDB_InsertLog\", \"parameters\": {\"collection_name\": \"merge_cycles\", \"log_entry\": {}}}</tool_code>''"

definition call_insert_log :: string where
  "call_insert_log = ''<tool_code>{\"tool_name\": \"MongoDB_InsertLog\", \"parameters\": {\"collection_name\": \"merge_cycles\", \"log_entry\": {}}}</tool_code>''"

definition call_tests :: string where
  "call_tests = ''<tool_code>{\"tool_name\": \"Selenium_RunTests\", \"parameters\": {}}</tool_code>''"

definition answer_with_pr :: string where
  "answer_with_pr = ''<final_answer>{\"status\": \"success\", \"pr_url\": \"u\", \"pr_number\": 7, \"local_changes_made\": true}</final_answer>''"


section \<open>Theorems: branch names\<close>

lemma re_sub_branch_eq: "re_sub_branch s = map spec_id_char s"
  by (simp add: re_sub_branch_def spec_id_char_def)

lemma spec_id_prefix: "map spec_id_char ''feature/'' = ''feature-''"
  by code_simp

lemma spec_id_dash: "map spec_id_char ''-'' = ''-''"
  by code_simp

lemma py_lower_dash: "py_lower (CHR ''-'') = CHR ''-''"
  by code_simp

lemma branch_char_dash: "branch_char (CHR ''-'')"
  by code_simp

lemma spec_id_title:
  "map spec_id_char (map py_lower (replace_space title)) = map spec_title_char title"
  by (simp add: spec_id_char_def replace_space_def spec_title_char_def py_lower_dash
      branch_char_dash)

lemma feature_branch_name_refines:
  "feature_branch_name feature_id title = branch_name_spec feature_id title"
  by (simp only: feature_branch_name_def branch_name_spec_def Let_def re_sub_branch_eq
      map_append spec_id_prefix spec_id_dash spec_id_title)

lemma feature_branch_name_length:
  "length (feature_branch_name feature_id title)
     = min 100 (9 + length feature_id + length title)"
  by (simp add: feature_branch_name_def re_sub_branch_def replace_space_def)

lemma feature_branch_name_chars: "list_all branch_char (feature_branch_name feature_id title)"
  unfolding feature_branch_name_def re_sub_branch_def Let_def list_all_iff
  by (auto dest!: in_set_takeD simp: branch_char_dash)

lemma feature_branch_name_example:
  "feature_branch_name ''F101'' ''Implement Light/Dark Mode Toggle!''
     = ''feature-F101-implement-light-dark-mode-toggle-''"
  by code_simp

text \<open>
  C7. For every feature id and title, the branch name computed by the orchestrator (and
  by the builder) is the pattern \<open>feature/{feature_id}-{title}\<close> with the title's spaces
  replaced by \<open>-\<close> and the title lower-cased, then every character that is no letter,
  digit, \<open>-\<close> or \<open>_\<close> replaced by the one separator \<open>-\<close> (each such character by one
  \<open>-\<close>, so the length is kept), then cut to 100 characters; the ticket F101 with title
  "Implement Light/Dark Mode Toggle!" gives
  \<open>feature-F101-implement-light-dark-mode-toggle-\<close>.
\<close>

theorem feature_branch_name_slug:
  "feature_branch_name feature_id title = branch_name_spec feature_id title
   \<and> length (feature_branch_name feature_id title)
       = min 100 (9 + length feature_id + length title)
   \<and> list_all branch_char (feature_branch_name feature_id title)
   \<and> feature_branch_name ''F101'' ''Implement Light/Dark Mode Toggle!''
       = ''feature-F101-implement-light-dark-mode-toggle-''"
  using feature_branch_name_refines feature_branch_name_length
    feature_branch_name_chars feature_branch_name_example
  by blast

theorem feature_branch_name_slug_witness:
  "feature_branch_name ''F7'' ''Add  Undo, Redo'' = ''feature-F7-add--undo--redo''
   \<and> length (feature_branch_name ''F7'' ''Add  Undo, Redo'') = 26"
proof -
  have "branch_name_spec ''F7'' ''Add  Undo, Redo'' = ''feature-F7-add--undo--redo''"
    by code_simp
  then show ?thesis
    using feature_branch_name_slug [of "''F7''" "''Add  Undo, Redo''"] by simp
qed

section \<open>Theorems: the retrying caller\<close>

lemma retrying_success:
  "model p w = (Inr r, w1) \<Longrightarrow> retrying model p k w = (Inr r, w1, 1, [])"
  by (subst retrying.simps) simp

lemma retrying_other:
  "model p w = (Inl e, w1) \<Longrightarrow> \<not> retry_if_resource_exhausted e
     \<Longrightarrow> retrying model p k w = (Inl e, w1, 1, [])"
  by (subst retrying.simps) simp

lemma retrying_stop:
  "model p w = (Inl e, w1) \<Longrightarrow> retry_if_resource_exhausted e \<Longrightarrow> 3 \<le> k
     \<Longrightarrow> retrying model p k w = (Inl (RetryError e), w1, 1, [])"
  by (subst retrying.simps) (simp add: stop_after_attempt_def)

lemma retrying_again:
  "model p w = (Inl e, w1) \<Longrightarrow> retry_if_resource_exhausted e \<Longrightarrow> k < 3
     \<Longrightarrow> retrying model p (Suc k) w1 = (r, w2, calls, sleeps)
     \<Longrightarrow> retrying model p k w = (r, w2, Suc calls, wait_exponential 1 4 10 k # sleeps)"
  by (subst retrying.simps) (simp add: stop_after_attempt_def)




lemma retrying_never_resource_exhausted:
  "retrying model p k w = (Inl e, w2, calls, sleeps) \<Longrightarrow> \<not> retry_if_resource_exhausted e"
proof (induction model p k w arbitrary: w2 calls sleeps rule: retrying.induct)
  case (1 model p k w)
  obtain o1 w1 where m: "model p w = (o1, w1)" by (cases "model p w")
  show ?case
  proof (cases o1)
    case (Inr r)
    with m "1.prems" show ?thesis by (auto simp: retrying_success)
  next
    case (Inl e1)
    show ?thesis
    proof (cases "retry_if_resource_exhausted e1")
      case False
      with m Inl "1.prems" show ?thesis by (auto simp: retrying_other)
    next
      case True
      show ?thesis
      proof (cases "3 \<le> k")
        case T3: True
        with m Inl True "1.prems" show ?thesis by (auto simp: retrying_stop)
      next
        case F3: False
        obtain r' w' c' s' where rec: "retrying model p (Suc k) w1 = (r', w', c', s')"
          by (cases "retrying model p (Suc k) w1") auto
        from F3 have k3: "k < 3" by simp
        from retrying_again[OF _ True k3 rec] m Inl "1.prems"
        have r': "r' = Inl e" by simp
        show ?thesis
          using "1.IH"[OF m[symmetric] Inl True _ rec[unfolded Suc_eq_plus1 r']] F3
          by (simp add: stop_after_attempt_def)
      qed
    qed
  qed
qed

text \<open>
  So the exception that leaves \<^verbatim>\<open>_generate_content_with_retry\<close> is never a
  ResourceExhausted: the first \<^verbatim>\<open>except\<close> clause of the loops does not match it.
\<close>

lemma generate_success:
  "model p w = (Inr r, w1) \<Longrightarrow> generate_content_with_retry model p w = (Inr r, w1, 1, [])"
  by (simp add: generate_content_with_retry_def retrying_success)



section \<open>Theorems: the parser and one round\<close>





lemma parse_tool_code_not_an_object:
  "re_search_group ''<tool_code>'' ''</tool_code>'' s = Some g \<Longrightarrow> loads (strip g) = Inr v
     \<Longrightarrow> type_name v \<noteq> ''dict''
     \<Longrightarrow> parse_tool_code loads s
         = Inl (AttributeError (quoted (type_name v) @ '' object has no attribute ''
                                  @ quoted ''get''))"
  by (cases v) (simp_all add: parse_tool_code_def quoted_def)


lemma agent_loop_final:
  "llm self p w = (Inr (Text_response t), w1) \<Longrightarrow> truthy (parse_final_answer loads t)
     \<Longrightarrow> agent_loop loads self name (Suc n) p prev w
         = (Inr (parse_final_answer loads t), w1, [(p, Inr (Text_response t))])"
  by (simp add: Let_def)



lemma resolve_builder: "resolve builder_agent_globals ''exceptions'' = Inr ()"
  by code_simp

lemma resolve_pm_exceptions: "resolve product_manager_agent_globals ''exceptions'' = Inr ()"
  by code_simp

lemma resolve_pm_google:
  "resolve product_manager_agent_globals ''google''
     = Inl (NameError (''name '' @ quoted ''google'' @ '' is not defined''))"
  by code_simp

lemma resolve_doc_google:
  "resolve auto_documentation_agent_globals ''google''
     = Inl (NameError (''name '' @ quoted ''google'' @ '' is not defined''))"
  by code_simp

lemma builder_loop_final:
  "llm self p w = (Inr (Text_response t), w1) \<Longrightarrow> truthy (parse_final_answer loads t)
     \<Longrightarrow> builder_loop loads exc_str self (Suc n) p w
         = (case del_if_present ''pr_url'' (parse_final_answer loads t) of
              Inl e \<Rightarrow> (Inl e, w1, [(p, Inr (Text_response t))])
            | Inr d1 \<Rightarrow>
                (case del_if_present ''pr_number'' d1 of
                   Inl e \<Rightarrow> (Inl e, w1, [(p, Inr (Text_response t))])
                 | Inr d2 \<Rightarrow> (Inr d2, w1, [(p, Inr (Text_response t))])))"
  by (simp add: Let_def resolve_builder generate_success text_or_empty_def)


declare agent_loop.simps(2) [simp del]

declare builder_loop.simps(2) [simp del]

declare process_comment_loop.simps(2) [simp del]

declare documentation_loop.simps(2) [simp del]

lemma max_iterations_Suc: "max_iterations = Suc 9"
  by (simp add: max_iterations_def)



section \<open>Theorems: final answers\<close>

lemma filter_absent_key:
  "map_of kvs k = None \<Longrightarrow> filter (\<lambda>kv. fst kv \<noteq> k) kvs = kvs"
  by (induction kvs) (auto split: if_splits)

lemma del_if_present_dict:
  "del_if_present k (JDict kvs) = Inr (JDict (filter (\<lambda>kv. fst kv \<noteq> k) kvs))"
  by (cases "map_of kvs k") (auto simp: del_if_present_def filter_absent_key)

lemma map_of_filter_key:
  "map_of (filter (\<lambda>kv. fst kv \<noteq> a \<and> fst kv \<noteq> b) kvs) k
     = (if k = a \<or> k = b then None else map_of kvs k)"
  by (induction kvs) auto

lemma builder_loop_last_final:
  "builder_loop loads exc_str self n p w = (Inr v, w', tr) \<Longrightarrow> tr \<noteq> []
     \<Longrightarrow> last tr = (p', Inr resp)
     \<Longrightarrow> truthy (parse_final_answer loads (text_or_empty resp))
     \<Longrightarrow> \<exists>d1. del_if_present ''pr_url'' (parse_final_answer loads (text_or_empty resp)) = Inr d1
            \<and> del_if_present ''pr_number'' d1 = Inr v"
proof (induction n arbitrary: p w tr)
  case 0
  then show ?case by simp
next
  case (Suc n)
  show ?case
    using Suc.prems Suc.IH
    by (auto simp: builder_loop.simps(2) Let_def
        split: prod.splits sum.splits if_splits)
qed

lemma builder_final_dict:
  assumes "builder_loop loads exc_str self n p w = (Inr v, w', tr)" "tr \<noteq> []"
    "last tr = (p', Inr resp)"
    "parse_final_answer loads (text_or_empty resp) = JDict kvs" "kvs \<noteq> []"
  shows "v = JDict (filter (\<lambda>kv. fst kv \<noteq> ''pr_url'' \<and> fst kv \<noteq> ''pr_number'') kvs)"
proof -
  from assms have "truthy (parse_final_answer loads (text_or_empty resp))" by simp
  from builder_loop_last_final[OF assms(1-3) this] assms(4)
  show ?thesis by (auto simp: del_if_present_dict)
qed

text \<open>
  C5, as stated, fails: a response with the well-formed final answer \<^verbatim>\<open>{}\<close> and a
  well-formed call of \<^verbatim>\<open>MongoDB_InsertLog\<close> does not end the merge controller's run; the
  empty object is falsy, the tool is executed, and the run ends with the next response's
  answer.
\<close>

theorem falsy_final_answer_runs_tool:
  "parse_final_answer loads_sample answer_empty_and_tool = JDict []
   \<and> parse_tool_code loads_sample answer_empty_and_tool
       = Inr (JStr ''MongoDB_InsertLog'',
             JDict [(''collection_name'', JStr ''merge_cycles''), (''log_entry'', JDict [])])
   \<and> fst (run_merge_decision loads_sample
          (sample_agent [Inr (Text_response answer_empty_and_tool),
                         Inr (Text_response answer_merged)]) ''p'' world0)
       = Inr (JDict [(''merge_decision'', JStr ''merged'')])
   \<and> tool_calls (fst (snd (run_merge_decision loads_sample
          (sample_agent [Inr (Text_response answer_empty_and_tool),
                         Inr (Text_response answer_merged)]) ''p'' world0)))
       = [(''MongoDB_InsertLog'',
          JDict [(''collection_name'', JStr ''merge_cycles''), (''log_entry'', JDict [])])]"
  by code_simp

text \<open>
  C5, amended. When the final-answer block of a response decodes to a truthy value, the
  round ends the run with that value and no tool is executed (the world is the one the
  model call left), whatever tool-call block the response also holds; the builder
  returns an object payload without its \<^verbatim>\<open>pr_url\<close> and \<^verbatim>\<open>pr_number\<close> keys.
\<close>

theorem final_answer_first:
  "(llm self p w = (Inr (Text_response t), w1) \<and> truthy (parse_final_answer loads t)
      \<longrightarrow> agent_loop loads self agent_name (Suc n) p prev w
          = (Inr (parse_final_answer loads t), w1, [(p, Inr (Text_response t))]))
   \<and> (llm self p w = (Inr (Text_response t), w1) \<and> parse_final_answer loads t = JDict kvs
        \<and> kvs \<noteq> []
      \<longrightarrow> builder_loop loads exc_str self (Suc n) p w
          = (Inr (JDict (filter (\<lambda>kv. fst kv \<noteq> ''pr_url'' \<and> fst kv \<noteq> ''pr_number'') kvs)),
             w1, [(p, Inr (Text_response t))]))"
proof -
  have a: "llm self p w = (Inr (Text_response t), w1) \<and> truthy (parse_final_answer loads t)
      \<longrightarrow> agent_loop loads self agent_name (Suc n) p prev w
          = (Inr (parse_final_answer loads t), w1, [(p, Inr (Text_response t))])"
    by (auto simp: agent_loop_final)
  have b: "llm self p w = (Inr (Text_response t), w1) \<and> parse_final_answer loads t = JDict kvs
        \<and> kvs \<noteq> []
      \<longrightarrow> builder_loop loads exc_str self (Suc n) p w
          = (Inr (JDict (filter (\<lambda>kv. fst kv \<noteq> ''pr_url'' \<and> fst kv \<noteq> ''pr_number'') kvs)),
             w1, [(p, Inr (Text_response t))])"
  proof (intro impI, elim conjE)
    assume m: "llm self p w = (Inr (Text_response t), w1)"
      and f: "parse_final_answer loads t = JDict kvs" and ne: "kvs \<noteq> []"
    from f ne have tr: "truthy (parse_final_answer loads t)" by simp
    show "builder_loop loads exc_str self (Suc n) p w
          = (Inr (JDict (filter (\<lambda>kv. fst kv \<noteq> ''pr_url'' \<and> fst kv \<noteq> ''pr_number'') kvs)),
             w1, [(p, Inr (Text_response t))])"
      by (simp add: builder_loop_final[OF m tr] f del_if_present_dict conj_commute)
  qed
  from a b show ?thesis by blast
qed

text \<open>
  C5, amended, at a response with a truthy final answer and a tool call.
\<close>

theorem final_answer_first_witness:
  "run_merge_decision loads_sample
       (sample_agent [Inr (Text_response answer_merged_and_tool)]) ''p'' world0
     = (Inr (JDict [(''merge_decision'', JStr ''merged'')]),
        \<lparr>model_calls = 1, tool_calls = []\<rparr>,
        [(''p'', Inr (Text_response answer_merged_and_tool))])"
proof -
  have m: "llm (sample_agent [Inr (Text_response answer_merged_and_tool)]) ''p'' world0
             = (Inr (Text_response answer_merged_and_tool),
                \<lparr>model_calls = 1, tool_calls = []\<rparr>)"
    by (simp add: sample_agent_def scripted_model_def world0_def)
  have f: "parse_final_answer loads_sample answer_merged_and_tool
             = JDict [(''merge_decision'', JStr ''merged'')]"
    by code_simp
  show ?thesis
    using final_answer_first
      [of "sample_agent [Inr (Text_response answer_merged_and_tool)]" "''p''" world0
          answer_merged_and_tool "\<lparr>model_calls = 1, tool_calls = []\<rparr>" loads_sample
          "''Confidence & Merge Controller Agent''" 9 None]
      m f
    by (simp add: run_merge_decision_def max_iterations_Suc)
qed

text \<open>
  C10. Whenever \<^verbatim>\<open>BuilderAgent.run\<close> returns because the last response's final
  answer decoded to a non-empty object, the returned object has neither the key
  \<^verbatim>\<open>pr_url\<close> nor the key \<^verbatim>\<open>pr_number\<close>, and every other key has the value (and the
  position) it has in the decoded final answer.
\<close>

theorem builder_final_answer_without_pr_keys:
  assumes "BuilderAgent_run loads exc_str self p w = (Inr v, w', tr)"
    and "tr \<noteq> []" and "last tr = (p', Inr resp)"
    and "parse_final_answer loads (text_or_empty resp) = JDict kvs" and "kvs \<noteq> []"
  shows "\<exists>kvs'. v = JDict kvs'
           \<and> kvs' = filter (\<lambda>kv. fst kv \<noteq> ''pr_url'' \<and> fst kv \<noteq> ''pr_number'') kvs
           \<and> map_of kvs' ''pr_url'' = None \<and> map_of kvs' ''pr_number'' = None
           \<and> (\<forall>k. k \<noteq> ''pr_url'' \<and> k \<noteq> ''pr_number'' \<longrightarrow> map_of kvs' k = map_of kvs k)"
proof -
  from assms(1) have "builder_loop loads exc_str self max_iterations p w = (Inr v, w', tr)"
    by (simp add: BuilderAgent_run_def)
  from builder_final_dict[OF this assms(2-5)]
  show ?thesis by (simp add: map_of_filter_key)
qed

text \<open>
  C10 at a final answer that holds both keys.
\<close>

theorem builder_final_answer_without_pr_keys_witness:
  "\<exists>kvs'. JDict [(''status'', JStr ''success''), (''local_changes_made'', JBool True)] = JDict kvs'
     \<and> kvs' = filter (\<lambda>kv. fst kv \<noteq> ''pr_url'' \<and> fst kv \<noteq> ''pr_number'')
                [(''status'', JStr ''success''), (''pr_url'', JStr ''u''),
                 (''pr_number'', JInt 7), (''local_changes_made'', JBool True)]
     \<and> map_of kvs' ''pr_url'' = None \<and> map_of kvs' ''pr_number'' = None"
proof -
  have r: "BuilderAgent_run loads_sample exc_str_sample
          (sample_builder [Inr (Text_response answer_with_pr)]) ''p'' world0
   = (Inr (JDict [(''status'', JStr ''success''), (''local_changes_made'', JBool True)]),
      \<lparr>model_calls = 1, tool_calls = []\<rparr>, [(''p'', Inr (Text_response answer_with_pr))])"
    by code_simp
  have f: "parse_final_answer loads_sample (text_or_empty (Text_response answer_with_pr))
     = JDict [(''status'', JStr ''success''), (''pr_url'', JStr ''u''),
              (''pr_number'', JInt 7), (''local_changes_made'', JBool True)]"
    by code_simp
  from builder_final_answer_without_pr_keys[OF r _ _ f]
  show ?thesis by auto
qed

lemma confidence_values:
  "confidence 1 1 1 0 = 0.9" "confidence 1 1 1 10 = 0.6"
  by (simp_all add: confidence_def)

lemma confidence_tests_fail:
  assumes "review_score = 0 \<or> review_score = 1" "qa_pass = 0 \<or> qa_pass = 1"
    "0 \<le> risk_score" "risk_score \<le> 10"
  shows "confidence 0 review_score qa_pass risk_score \<le> 0.5"
  using assms by (auto simp: confidence_def)

text \<open>
  C1, as stated, fails: the merge controller's decision is the model's answer, not a
  function of the inputs. On the same prompt (which reports failed tests, for which the
  formula rejects) one model makes the agent return \<^verbatim>\<open>merged\<close> and another
  \<^verbatim>\<open>rejected\<close>.
\<close>

theorem merge_decision_depends_on_model:
  "fst (run_merge_decision loads_sample (sample_agent [Inr (Text_response answer_merged)])
          sample_merge_prompt world0)
     = Inr (JDict [(''merge_decision'', JStr ''merged'')])
   \<and> fst (run_merge_decision loads_sample (sample_agent [Inr (Text_response answer_rejected)])
          sample_merge_prompt world0)
     = Inr (JDict [(''merge_decision'', JStr ''rejected'')])
   \<and> \<not> formula_merges 0 1 1 0"
proof -
  have a: "fst (run_merge_decision loads_sample
                  (sample_agent [Inr (Text_response answer_merged)])
                  sample_merge_prompt world0)
     = Inr (JDict [(''merge_decision'', JStr ''merged'')])"
    by code_simp
  have b: "fst (run_merge_decision loads_sample
                  (sample_agent [Inr (Text_response answer_rejected)])
                  sample_merge_prompt world0)
     = Inr (JDict [(''merge_decision'', JStr ''rejected'')])"
    by code_simp
  have c: "\<not> formula_merges 0 1 1 0"
    by (simp add: formula_merges_def confidence_def)
  from a b c show ?thesis by blast
qed

text \<open>
  C1, amended. \<^verbatim>\<open>run_merge_decision\<close> returns the first truthy final answer of the
  model unchanged; the confidence formula is text of the prompt. As a function, the
  formula gives 0.9 (merge) at tests_pass = review_score = qa_pass = 1 and
  risk_score = 0, gives 0.6 (reject) at risk_score = 10, and gives at most 0.5 (reject)
  whenever tests_pass = 0, review_score and qa_pass are 0 or 1 and risk_score is in
  [0, 10].
\<close>

theorem merge_decision_is_the_models_answer:
  "(llm self p w = (Inr (Text_response t), w1) \<and> truthy (parse_final_answer loads t)
      \<longrightarrow> run_merge_decision loads self p w
            = (Inr (parse_final_answer loads t), w1, [(p, Inr (Text_response t))]))
   \<and> confidence 1 1 1 0 = 0.9 \<and> formula_merges 1 1 1 0
   \<and> confidence 1 1 1 10 = 0.6 \<and> \<not> formula_merges 1 1 1 10
   \<and> ((review_score = 0 \<or> review_score = 1) \<and> (qa_pass = 0 \<or> qa_pass = 1)
        \<and> 0 \<le> risk_score \<and> risk_score \<le> 10
      \<longrightarrow> confidence 0 review_score qa_pass risk_score \<le> 0.5
          \<and> \<not> formula_merges 0 review_score qa_pass risk_score)"
proof -
  have a: "llm self p w = (Inr (Text_response t), w1) \<and> truthy (parse_final_answer loads t)
      \<longrightarrow> run_merge_decision loads self p w
            = (Inr (parse_final_answer loads t), w1, [(p, Inr (Text_response t))])"
    unfolding run_merge_decision_def max_iterations_Suc
    by (intro impI, elim conjE) (rule agent_loop_final)
  have b: "confidence 1 1 1 0 = 0.9 \<and> formula_merges 1 1 1 0
      \<and> confidence 1 1 1 10 = 0.6 \<and> \<not> formula_merges 1 1 1 10"
    by (simp add: formula_merges_def confidence_def)
  have c: "(review_score = 0 \<or> review_score = 1) \<and> (qa_pass = 0 \<or> qa_pass = 1)
        \<and> 0 \<le> risk_score \<and> risk_score \<le> 10
      \<longrightarrow> confidence 0 review_score qa_pass risk_score \<le> 0.5
          \<and> \<not> formula_merges 0 review_score qa_pass risk_score"
    using confidence_tests_fail[of review_score qa_pass risk_score]
    by (auto simp: formula_merges_def)
  from a b c show ?thesis by blast
qed

text \<open>
  C1, amended, at a model that answers \<^verbatim>\<open>merged\<close>, and at tests_pass = 0.
\<close>

theorem merge_decision_is_the_models_answer_witness:
  "run_merge_decision loads_sample (sample_agent [Inr (Text_response answer_merged)])
       sample_merge_prompt world0
     = (Inr (JDict [(''merge_decision'', JStr ''merged'')]), world0\<lparr>model_calls := 1\<rparr>,
        [(sample_merge_prompt, Inr (Text_response answer_merged))])
   \<and> confidence 0 1 1 0 \<le> 0.5 \<and> \<not> formula_merges 0 1 1 0"
proof -
  have m: "llm (sample_agent [Inr (Text_response answer_merged)]) sample_merge_prompt world0
             = (Inr (Text_response answer_merged), world0\<lparr>model_calls := 1\<rparr>)"
    by (simp add: sample_agent_def scripted_model_def world0_def)
  have f: "parse_final_answer loads_sample answer_merged
             = JDict [(''merge_decision'', JStr ''merged'')]"
    by code_simp
  show ?thesis
    using merge_decision_is_the_models_answer
      [of "sample_agent [Inr (Text_response answer_merged)]" sample_merge_prompt world0
          answer_merged "world0\<lparr>model_calls := 1\<rparr>" loads_sample 1 1 0]
      m f
    by simp
qed

section \<open>Theorems: the iteration cap\<close>







section \<open>Theorems: the conversation is append-only\<close>

lemma tool_step_extends:
  "tool_step loads registry t p w = (Inr p', w') \<Longrightarrow> \<exists>seg. seg \<noteq> [] \<and> p' = p @ seg"
  by (auto simp: tool_step_def split: sum.splits prod.splits option.splits)

lemma tool_step_prefix:
  "tool_step loads registry t p w = (Inr p', w') \<Longrightarrow> prefix p p'"
  by (auto dest: tool_step_extends)

lemma chain_from_weaken: "prefix p q \<Longrightarrow> chain_from q xs \<Longrightarrow> chain_from p xs"
  by (cases xs) (auto intro: prefix_order.trans)

lemma chain_from_lengths:
  "chain_from p xs \<Longrightarrow> sorted (map length xs) \<and> (\<forall>x\<in>set xs. length p \<le> length x)"
proof (induction xs arbitrary: p)
  case Nil
  then show ?case by simp
next
  case (Cons x xs)
  then have px: "prefix p x" and c: "chain_from x xs" by simp_all
  from Cons.IH[OF c] px show ?case
    by (auto dest: prefix_length_le intro: order_trans)
qed

lemma agent_loop_chain:
  "chain_from p (map fst (snd (snd (agent_loop loads self name n p prev w))))"
proof (induction n arbitrary: p prev w)
  case 0
  show ?case by (simp split: option.splits)
next
  case (Suc n)
  have ih: "chain_from p (map fst tr)"
    if "agent_loop loads self name n p' prev' w' = (r, w3, tr)" and "prefix p p'"
    for p' prev' w' r w3 tr
    using Suc.IH[of p' prev' w'] that by (auto intro: chain_from_weaken)
  show ?case
    by (auto simp: agent_loop.simps(2) Let_def
        split: prod.splits sum.splits response.splits
        dest!: tool_step_prefix intro: ih)
qed

lemma builder_loop_chain:
  "chain_from p (map fst (snd (snd (builder_loop loads exc_str self n p w))))"
proof (induction n arbitrary: p w)
  case 0
  show ?case by simp
next
  case (Suc n)
  have ih: "chain_from p (map fst tr)"
    if "builder_loop loads exc_str self n p' w' = (r, w3, tr)" and "prefix p p'"
    for p' w' r w3 tr
    using Suc.IH[of p' w'] that by (auto intro: chain_from_weaken)
  show ?case
    by (auto simp: builder_loop.simps(2) Let_def
        split: prod.splits sum.splits response.splits
        dest!: tool_step_prefix intro: ih)
qed

lemma process_comment_loop_chain:
  "chain_from p (map fst (snd (snd (process_comment_loop loads exc_str model n p w))))"
proof (induction n arbitrary: p w)
  case 0
  show ?case by simp
next
  case (Suc n)
  have ih: "chain_from p (map fst tr)"
    if "process_comment_loop loads exc_str model n p' w' = (r, w3, tr)" and "prefix p p'"
    for p' w' r w3 tr
    using Suc.IH[of p' w'] that by (auto intro: chain_from_weaken)
  show ?case
    by (auto simp: process_comment_loop.simps(2) Let_def
        split: prod.splits sum.splits response.splits option.splits
        intro: ih)
qed

text \<open>
  C8. In a run of the builder's loop, of the product manager's loop and of the loop
  of the other agents, the prompts submitted round after round start with the initial
  prompt and each is a prefix of the next, so their lengths never decrease; a round
  that appends a tool-output, a tool-error or a free-text segment makes the prompt
  strictly longer and keeps the old prompt as a prefix.
\<close>

theorem conversation_append_only:
  "chain_from p (map fst (snd (snd (BuilderAgent_run loads exc_str self p w))))
   \<and> sorted (map length (map fst (snd (snd (BuilderAgent_run loads exc_str self p w)))))
   \<and> chain_from p (map fst (snd (snd (process_comment loads exc_str model p w))))
   \<and> sorted (map length (map fst (snd (snd (process_comment loads exc_str model p w)))))
   \<and> chain_from p (map fst (snd (snd (agent_loop loads self agent_name n p prev w))))
   \<and> sorted (map length (map fst (snd (snd (agent_loop loads self agent_name n p prev w)))))
   \<and> (tool_step loads registry t p w = (Inr p', w') \<longrightarrow> prefix p p' \<and> length p < length p')"
proof -
  have a: "chain_from p (map fst (snd (snd (BuilderAgent_run loads exc_str self p w))))"
    by (simp add: BuilderAgent_run_def builder_loop_chain)
  have b: "chain_from p (map fst (snd (snd (process_comment loads exc_str model p w))))"
    by (simp add: process_comment_def process_comment_loop_chain)
  have c: "chain_from p (map fst (snd (snd (agent_loop loads self agent_name n p prev w))))"
    by (rule agent_loop_chain)
  have d: "tool_step loads registry t p w = (Inr p', w') \<longrightarrow> prefix p p' \<and> length p < length p'"
    by (auto dest: tool_step_extends)
  from a b c d chain_from_lengths[OF a] chain_from_lengths[OF b] chain_from_lengths[OF c]
  show ?thesis by blast
qed

text \<open>
  C8 at a builder run with a tool-output round, a tool-error round, a free-text round
  and a final answer.
\<close>

theorem conversation_append_only_witness:
  "chain_from ''p''
     [''p'',
      ''p\<newline>\<newline>Tool Output for MongoDB_InsertLog:\<newline>Log inserted into merge_cycles\<newline>\<newline>'',
      ''p\<newline>\<newline>Tool Output for MongoDB_InsertLog:\<newline>Log inserted into merge_cycles\<newline>\<newline>\<newline>\<newline>Tool Error for Selenium_RunTests: pytest not found\<newline>\<newline>'',
      ''p\<newline>\<newline>Tool Output for MongoDB_InsertLog:\<newline>Log inserted into merge_cycles\<newline>\<newline>\<newline>\<newline>Tool Error for Selenium_RunTests: pytest not found\<newline>\<newline>\<newline>\<newline>LLM Thought/Response:\<newline>thinking\<newline>\<newline>'']"
proof -
  have "map fst (snd (snd (BuilderAgent_run loads_sample exc_str_sample
          (sample_builder [Inr (Text_response call_insert_log), Inr (Text_response call_tests),
                         Inr (Text_response ''thinking''), Inr (Text_response answer_with_pr)])
          ''p'' world0)))
   = [''p'',
      ''p\<newline>\<newline>Tool Output for MongoDB_InsertLog:\<newline>Log inserted into merge_cycles\<newline>\<newline>'',
      ''p\<newline>\<newline>Tool Output for MongoDB_InsertLog:\<newline>Log inserted into merge_cycles\<newline>\<newline>\<newline>\<newline>Tool Error for Selenium_RunTests: pytest not found\<newline>\<newline>'',
      ''p\<newline>\<newline>Tool Output for MongoDB_InsertLog:\<newline>Log inserted into merge_cycles\<newline>\<newline>\<newline>\<newline>Tool Error for Selenium_RunTests: pytest not found\<newline>\<newline>\<newline>\<newline>LLM Thought/Response:\<newline>thinking\<newline>\<newline>'']"
    by code_simp
  with conversation_append_only
         [where loads = loads_sample and exc_str = exc_str_sample and p = "''p''" and w = world0
            and self = "sample_builder [Inr (Text_response call_insert_log),
                         Inr (Text_response call_tests),
                         Inr (Text_response ''thinking''), Inr (Text_response answer_with_pr)]"]
  show ?thesis by simp
qed

section \<open>Theorems: the entry points and exceptions\<close>

lemma raising_generate:
  "\<exists>e' calls sleeps.
      generate_content_with_retry (raising_model e) p w = (Inl e', w, calls, sleeps)"
proof (cases "retry_if_resource_exhausted e")
  case False
  have m: "raising_model e p w = (Inl e, w)" by (simp add: raising_model_def)
  have "retrying (raising_model e) p 1 w = (Inl e, w, 1, [])"
    using m False by (rule retrying_other)
  then show ?thesis
    by (simp add: generate_content_with_retry_def)
next
  case True
  have m: "raising_model e p w = (Inl e, w)" by (simp add: raising_model_def)
  have r3: "retrying (raising_model e) p (Suc (Suc 1)) w = (Inl (RetryError e), w, 1, [])"
    using m True by (simp add: retrying_stop)
  have r2: "retrying (raising_model e) p (Suc 1) w
              = (Inl (RetryError e), w, Suc 1, [wait_exponential 1 4 10 (Suc 1)])"
    using m True _ r3 by (rule retrying_again) simp
  have "retrying (raising_model e) p 1 w
              = (Inl (RetryError e), w, Suc (Suc 1),
                 [wait_exponential 1 4 10 1, wait_exponential 1 4 10 (Suc 1)])"
    using m True _ r2 by (rule retrying_again) simp
  then show ?thesis by (simp add: generate_content_with_retry_def)
qed

lemma process_comment_loop_raising:
  "generate_content_with_retry model p w = (Inl e', w1, calls, sleeps)
     \<Longrightarrow> process_comment_loop loads exc_str model (Suc n) p w
         = (Inl (NameError (''name '' @ quoted ''google'' @ '' is not defined'')), w1,
            [(p, Inl e')])"
  by (simp add: process_comment_loop.simps(2) resolve_pm_exceptions resolve_pm_google)

lemma process_comment_raising:
  "fst (process_comment loads exc_str (raising_model e) p w)
     = Inl (NameError (''name '' @ quoted ''google'' @ '' is not defined''))"
proof -
  from raising_generate[of e p w] obtain e' calls sleeps where
    g: "generate_content_with_retry (raising_model e) p w = (Inl e', w, calls, sleeps)"
    by blast
  have "process_comment loads exc_str (raising_model e) p w
          = process_comment_loop loads exc_str (raising_model e) (Suc 2) p w"
    by (simp add: process_comment_def numeral_3_eq_3)
  then show ?thesis
    by (simp only: process_comment_loop_raising[OF g] fst_conv)
qed

lemma documentation_loop_raises:
  "documentation_loop loads exc_str self (Suc n) p prev w
     = (Inl (NameError (''name '' @ quoted ''google'' @ '' is not defined'')), w, [])"
  by (simp add: documentation_loop.simps(2) resolve_doc_google)

lemma run_documentation_raises:
  "run_documentation loads exc_str self p w
     = (Inl (NameError (''name '' @ quoted ''google'' @ '' is not defined'')), w, [])"
  by (simp only: run_documentation_def max_iterations_Suc documentation_loop_raises)

lemma agent_loop_raising:
  "llm self p w = (Inl e, w1)
     \<Longrightarrow> agent_loop loads self name (Suc n) p prev w = (Inl e, w1, [(p, Inl e)])"
  by (simp add: agent_loop.simps(2))

text \<open>
  C2 does not hold of the code. \<^verbatim>\<open>run_documentation\<close> raises NameError in its first
  round for every input, before any model call; \<^verbatim>\<open>process_comment\<close> raises NameError
  whenever the model call fails, with any exception; \<^verbatim>\<open>run_review\<close> and
  \<^verbatim>\<open>run_qa\<close> let every exception of the model call through.
\<close>

theorem entry_points_raise:
  "run_documentation loads exc_str self p w
     = (Inl (NameError (''name '' @ quoted ''google'' @ '' is not defined'')), w, [])
   \<and> fst (process_comment loads exc_str (raising_model e) p w)
     = Inl (NameError (''name '' @ quoted ''google'' @ '' is not defined''))
   \<and> run_review loads (self\<lparr>llm := raising_model e\<rparr>) p w = (Inl e, w, [(p, Inl e)])
   \<and> run_qa loads (self\<lparr>llm := raising_model e\<rparr>) p w = (Inl e, w, [(p, Inl e)])"
proof -
  have m: "llm (self\<lparr>llm := raising_model e\<rparr>) p w = (Inl e, w)"
    by (simp add: raising_model_def)
  show ?thesis
    by (simp only: run_documentation_raises process_comment_raising run_review_def run_qa_def
        max_iterations_Suc agent_loop_raising[OF m] simp_thms)
qed

text \<open>
  The same at a model call that raises a generic exception.
\<close>

theorem entry_points_raise_witness:
  "fst (run_documentation loads_sample exc_str_sample (sample_agent []) ''p'' world0)
     = Inl (NameError (''name '' @ quoted ''google'' @ '' is not defined''))
   \<and> fst (process_comment loads_sample exc_str_sample
            (raising_model (OtherException ''boom'')) ''p'' world0)
     = Inl (NameError (''name '' @ quoted ''google'' @ '' is not defined''))
   \<and> fst (run_review loads_sample
            ((sample_agent [])\<lparr>llm := raising_model (OtherException ''boom'')\<rparr>) ''p'' world0)
     = Inl (OtherException ''boom'')"
  using entry_points_raise
    [of loads_sample exc_str_sample "sample_agent []" "''p''" world0 "OtherException ''boom''"]
  by simp

section \<open>Theorems: pull requests\<close>

lemma create_pr_existing:
  "get_pulls r Open (owner_login r @ '':'' @ head) \<noteq> []
     \<Longrightarrow> create_pr r title body head base
         = (Inr (pr_dict (hd (get_pulls r Open (owner_login r @ '':'' @ head)))), r)"
  by (simp add: create_pr_def Let_def hd_conv_nth)

lemma create_pr_again:
  assumes "create_pr r title body head base = (Inr res, r')"
  shows "create_pr r' title' body' head base' = (Inr res, r')"
proof (cases "get_pulls r Open (owner_login r @ '':'' @ head) = []")
  case False
  with assms show ?thesis by (auto simp: create_pr_existing)
next
  case True
  with assms have r': "r' = snd (create_pull r title body head base)"
    and res: "res = pr_dict (fst (create_pull r title body head base))"
    by (auto simp: create_pr_def Let_def split: if_splits prod.splits)
  have "get_pulls r' Open (owner_login r' @ '':'' @ head)
          = [fst (create_pull r title body head base)]"
    using True by (simp add: r' create_pull_def get_pulls_def Let_def)
  then show ?thesis
    using res by (simp add: create_pr_existing)
qed

text \<open>
  C9. When an open pull request exists for the head branch, \<^verbatim>\<open>create_pr\<close> returns
  the URL and number of the first one listed and leaves the repository as it is; and
  after any successful \<^verbatim>\<open>create_pr\<close>, a second call for the same head branch (with
  any title, body and base) returns the same URL and number and creates nothing.
\<close>

theorem create_pr_idempotent:
  "(get_pulls r Open (owner_login r @ '':'' @ head) \<noteq> []
      \<longrightarrow> create_pr r title body head base
            = (Inr (pr_dict (hd (get_pulls r Open (owner_login r @ '':'' @ head)))), r))
   \<and> (create_pr r title body head base = (Inr res, r')
      \<longrightarrow> create_pr r' title' body' head base' = (Inr res, r')
          \<and> get_pulls r' Open (owner_login r' @ '':'' @ head) \<noteq> [])"
proof -
  have a: "get_pulls r Open (owner_login r @ '':'' @ head) \<noteq> []
      \<longrightarrow> create_pr r title body head base
            = (Inr (pr_dict (hd (get_pulls r Open (owner_login r @ '':'' @ head)))), r)"
    by (simp add: create_pr_existing)
  have b: "create_pr r title body head base = (Inr res, r')
      \<longrightarrow> create_pr r' title' body' head base' = (Inr res, r')"
    by (auto dest: create_pr_again)
  have c: "create_pr r title body head base = (Inr res, r')
      \<longrightarrow> get_pulls r' Open (owner_login r' @ '':'' @ head) \<noteq> []"
    by (auto simp: create_pr_def create_pull_def get_pulls_def Let_def split: if_splits)
  from a b c show ?thesis by blast
qed

text \<open>
  C9 at a repository without pull requests: the first call opens number 7, the second
  returns it and the repository still has one pull request.
\<close>

theorem create_pr_idempotent_witness:
  "fst (create_pr (snd (create_pr sample_repo ''t'' ''b'' ''feature-F1-x'' ''main''))
          ''t2'' ''b2'' ''feature-F1-x'' ''main'')
     = Inr (JDict [(''pr_url'', JStr ''https://github.com/pull''), (''pr_number'', JInt 7)])
   \<and> length (pulls (snd (create_pr (snd (create_pr sample_repo ''t'' ''b'' ''feature-F1-x'' ''main''))
          ''t2'' ''b2'' ''feature-F1-x'' ''main''))) = 1"
proof -
  have f: "create_pr sample_repo ''t'' ''b'' ''feature-F1-x'' ''main''
   = (Inr (JDict [(''pr_url'', JStr ''https://github.com/pull''), (''pr_number'', JInt 7)]),
      snd (create_pull sample_repo ''t'' ''b'' ''feature-F1-x'' ''main''))"
    by (simp add: create_pr_def sample_repo_def get_pulls_def create_pull_def pr_dict_def Let_def)
  have l: "length (pulls (snd (create_pull sample_repo ''t'' ''b'' ''feature-F1-x'' ''main''))) = 1"
    by (simp add: sample_repo_def create_pull_def Let_def)
  from create_pr_idempotent
         [where r = sample_repo and title = "''t''" and body = "''b''"
            and head = "''feature-F1-x''" and base = "''main''" and title' = "''t2''"
            and body' = "''b2''" and base' = "''main''"
            and res = "JDict [(''pr_url'', JStr ''https://github.com/pull''),
                              (''pr_number'', JInt 7)]"
            and r' = "snd (create_pull sample_repo ''t'' ''b'' ''feature-F1-x'' ''main'')"] f l
  show ?thesis by simp
qed

end
